theory Spec2Isabelle
  imports Complex_Main
begin

section \<open>Economy configuration\<close>

text \<open>
  The constants of \<^verbatim>\<open>src/main.py\<close>, lines 32-36. Python integers are unbounded, so
  every amount of gold is an \<^typ>\<open>int\<close>.
\<close>

definition MAX_GOLD_NORMAL :: int where
  "MAX_GOLD_NORMAL = 50000000000"

definition MAX_GOLD_ADMIN :: int where
  "MAX_GOLD_ADMIN = 100000000000"

definition ADMIN_MONTHLY_BONUS :: int where
  "ADMIN_MONTHLY_BONUS = 30000000000"

definition LABOUR_COOLDOWN_HOURS :: int where
  "LABOUR_COOLDOWN_HOURS = 1"

definition WEEKLY_GAMBLING_TRIES :: int where
  "WEEKLY_GAMBLING_TRIES = 30"

section \<open>Time\<close>

text \<open>
  An instant is a reading of \<^verbatim>\<open>utcnow()\<close>: the number of microseconds since
  0001-01-01 00:00:00 UTC, the first instant a Python \<^verbatim>\<open>datetime\<close> can hold. That day
  is a Monday (\<^verbatim>\<open>date(1, 1, 1).weekday() == 0\<close>), so the weekday of an instant is its
  day number modulo 7. A \<^verbatim>\<open>timedelta\<close> is a difference of instants, again in
  microseconds; \<^verbatim>\<open>total_seconds() >= n\<close> for a whole number \<^verbatim>\<open>n\<close> of seconds holds
  exactly when the difference is at least \<^verbatim>\<open>n * 10^6\<close> microseconds.
  One operation reads the clock once: its reading is the argument \<open>now\<close>.
\<close>

type_synonym instant = int

definition SECOND :: int where "SECOND = 1000000"
definition MINUTE :: int where "MINUTE = 60 * SECOND"
definition HOUR :: int where "HOUR = 60 * MINUTE"
definition DAY :: int where "DAY = 24 * HOUR"
definition WEEK :: int where "WEEK = 7 * DAY"

definition weekday :: "instant \<Rightarrow> int" where
  "weekday t = (t div DAY) mod 7"

definition hour :: "instant \<Rightarrow> int" where
  "hour t = (t mod DAY) div HOUR"

definition minute :: "instant \<Rightarrow> int" where
  "minute t = (t mod HOUR) div MINUTE"

definition second :: "instant \<Rightarrow> int" where
  "second t = (t mod MINUTE) div SECOND"

definition microsecond :: "instant \<Rightarrow> int" where
  "microsecond t = t mod SECOND"

text \<open>\<^verbatim>\<open>get_week_start\<close> (lines 429-436): Monday 00:00 UTC of the current week.\<close>

definition get_week_start :: "instant \<Rightarrow> instant" where
  "get_week_start now =
     (let days_since_monday = weekday now
      in now - (days_since_monday * DAY + hour now * HOUR + minute now * MINUTE
                + second now * SECOND + microsecond now))"

section \<open>Arguments of a statement\<close>

text \<open>
  The pool is \<^verbatim>\<open>asyncpg.create_pool\<close> (lines 45-50) and no type codec is set anywhere, so
  the driver encodes the argument of a \<^verbatim>\<open>TIMESTAMP\<close> parameter from a \<^verbatim>\<open>datetime\<close> or
  a \<^verbatim>\<open>date\<close> only: for a \<^verbatim>\<open>str\<close> it raises \<^verbatim>\<open>DataError\<close>, before the statement is sent. Every column
  that holds a time is \<^verbatim>\<open>TIMESTAMP\<close> in \<^verbatim>\<open>init_db\<close> (lines 3674, 3675, 3682, 3695,
  3737, 3750, 3762), and a parameter compared with or stored in such a column has that
  type.

  An argument passed for such a parameter is a \<^verbatim>\<open>datetime\<close>, or the \<^verbatim>\<open>str\<close> that
  \<^verbatim>\<open>isoformat()\<close> makes of one; \<open>timestamp_argument\<close> is the value the statement receives,
  or the error the driver raises instead.
\<close>

datatype argument = Datetime instant | Iso_str instant

definition isoformat :: "instant \<Rightarrow> argument" where
  "isoformat t = Iso_str t"

datatype exception = DataError

definition timestamp_argument :: "argument \<Rightarrow> exception + instant" where
  "timestamp_argument a = (case a of Datetime t \<Rightarrow> Inr t | Iso_str t \<Rightarrow> Inl DataError)"

section \<open>The ledger store\<close>

text \<open>
  One record per table of \<^verbatim>\<open>init_db\<close> (lines 3669-3775), with the columns the
  economy functions read or write. A table with a primary key is a map from the key to
  the row; a table that is only appended to and scanned is the list of its rows, oldest
  first. The texts the code builds with f-strings are kept as the f-string's name and
  arguments: number formatting is presentation.

  A function of the source that catches \<^verbatim>\<open>Exception\<close> has its \<^verbatim>\<open>except\<close> branch in the
  model wherever a statement of its \<^verbatim>\<open>try\<close> block takes a timestamp argument. Statements
  inside \<^verbatim>\<open>conn.transaction()\<close> are rolled back when the block is left by an exception:
  the store is then the one before the block. \<^verbatim>\<open>get_user_balance\<close>, \<^verbatim>\<open>is_user_admin\<close>
  and \<^verbatim>\<open>update_user_balance\<close> each take a connection of their own, so what they wrote
  stays when a caller's transaction is rolled back.
\<close>

record account =
  gold :: int
  daily_claimed :: "instant option"
  work_cooldown :: "instant option"
  gamble_wins :: int
  gamble_losses :: int
  total_gold_earned :: int
  total_gold_spent :: int
  is_admin :: bool
  admin_monthly_claimed :: "instant option"

datatype description =
    Plain string
  | Gamed int string bool
  | Paid int int
  | Received int int
  | Purchased string
  | Won_tournament string
  | Funded_tournament string

record transaction_row =
  t_user_id :: int
  t_guild_id :: int
  t_type :: string
  t_amount :: int
  t_description :: description
  t_timestamp :: instant
  t_balance_after :: int

record gambling_record =
  g_user_id :: int
  g_guild_id :: int
  g_game_type :: string
  g_bet_amount :: int
  g_win_amount :: int
  g_outcome :: string
  g_timestamp :: instant

record giveaway =
  gw_guild_id :: int
  gw_channel_id :: int
  gw_message_id :: int
  gw_host_id :: int
  gw_prize_name :: string
  gw_prize_amount :: int
  gw_end_time :: instant
  gw_winner_count :: int
  gw_status :: string

record giveaway_entry =
  e_giveaway_id :: int
  e_user_id :: int
  e_entered_at :: instant

record admin_claim =
  c_user_id :: int
  c_guild_id :: int
  c_claimed_at :: instant
  c_amount :: int

record shop_item =
  i_guild_id :: int
  i_name :: string
  i_price :: int
  i_role_id :: "int option"
  i_stock :: int

record inventory_row =
  v_user_id :: int
  v_guild_id :: int
  v_item_id :: int
  v_purchased_at :: instant

record db =
  user_economy :: "(int \<times> int) \<rightharpoonup> account"
  transactions :: "transaction_row list"
  gambling_records :: "gambling_record list"
  active_giveaways :: "int \<rightharpoonup> giveaway"
  next_giveaway_id :: int
  giveaway_entries :: "giveaway_entry list"
  admin_monthly_claims :: "admin_claim list"
  shop_items :: "int \<rightharpoonup> shop_item"
  user_inventory :: "inventory_row list"

text \<open>
  The chat platform, as far as the economy reads it. \<^verbatim>\<open>bot.get_guild(guild_id)\<close> is
  \<open>None\<close> or the guild; the guild's \<^verbatim>\<open>get_member(user_id)\<close> is \<open>None\<close> or the member,
  with \<^verbatim>\<open>guild_permissions.administrator\<close> and the ids of \<^verbatim>\<open>roles\<close>; the guild's
  \<^verbatim>\<open>get_role(role_id)\<close> is \<open>None\<close> or the role, which is known by its id.
\<close>

record member =
  administrator :: bool
  roles :: "int list"

record guild =
  get_member :: "int \<Rightarrow> member option"
  get_role :: "int \<Rightarrow> int option"

type_synonym discord_bot = "int \<Rightarrow> guild option"

text \<open>
  \<^verbatim>\<open>UPDATE user_economy SET ... WHERE user_id=$1 AND guild_id=$2\<close>: changes the row of
  the key when there is one and nothing otherwise.
\<close>

definition update_row :: "db \<Rightarrow> int \<times> int \<Rightarrow> (account \<Rightarrow> account) \<Rightarrow> db" where
  "update_row s k f =
     (case user_economy s k of
        None \<Rightarrow> s
      | Some row \<Rightarrow> s\<lparr>user_economy := (user_economy s)(k \<mapsto> f row)\<rparr>)"

text \<open>The row \<^verbatim>\<open>INSERT INTO user_economy (user_id, guild_id, gold, total_gold_earned)
  VALUES ($1, $2, 100, 100)\<close> creates, the other columns at their defaults.\<close>

definition new_account :: account where
  "new_account =
     \<lparr>gold = 100, daily_claimed = None, work_cooldown = None, gamble_wins = 0,
      gamble_losses = 0, total_gold_earned = 100, total_gold_spent = 0, is_admin = False,
      admin_monthly_claimed = None\<rparr>"

section \<open>Balance engine\<close>

text \<open>\<^verbatim>\<open>is_user_admin\<close> (lines 471-497). It writes the flag back when the platform
  says administrator.\<close>

definition is_user_admin :: "discord_bot \<Rightarrow> db \<Rightarrow> int \<Rightarrow> int \<Rightarrow> bool \<times> db" where
  "is_user_admin client s user_id guild_id =
     (if (case user_economy s (user_id, guild_id) of None \<Rightarrow> False | Some row \<Rightarrow> is_admin row)
      then (True, s)
      else (case client guild_id of
              None \<Rightarrow> (False, s)
            | Some guild \<Rightarrow>
                (case get_member guild user_id of
                   None \<Rightarrow> (False, s)
                 | Some member \<Rightarrow>
                     if administrator member
                     then (True,
                           update_row s (user_id, guild_id) (\<lambda>row. row\<lparr>is_admin := True\<rparr>))
                     else (False, s))))"

text \<open>\<^verbatim>\<open>get_user_balance\<close> (lines 499-520): the row's gold and statistics; a missing
  row is created with the starting gold.\<close>

definition get_user_balance ::
  "db \<Rightarrow> int \<Rightarrow> int \<Rightarrow> (int \<times> int \<times> int \<times> int \<times> int \<times> bool) \<times> db" where
  "get_user_balance s user_id guild_id =
     (case user_economy s (user_id, guild_id) of
        Some row \<Rightarrow>
          ((gold row, gamble_wins row, gamble_losses row, total_gold_earned row,
            total_gold_spent row, is_admin row), s)
      | None \<Rightarrow>
          ((100, 0, 0, 100, 0, False),
           s\<lparr>user_economy := (user_economy s)((user_id, guild_id) \<mapsto> new_account)\<rparr>))"

text \<open>\<^verbatim>\<open>get_gold_cap\<close> (lines 522-526).\<close>

definition get_gold_cap :: "discord_bot \<Rightarrow> db \<Rightarrow> int \<Rightarrow> int \<Rightarrow> int \<times> db" where
  "get_gold_cap client s user_id guild_id =
     (case is_user_admin client s user_id guild_id of
        (adm, s') \<Rightarrow> (if adm then MAX_GOLD_ADMIN else MAX_GOLD_NORMAL, s'))"

text \<open>
  \<^verbatim>\<open>update_user_balance\<close> (lines 528-569), the spec's \<open>adjust\<close>. The \<^verbatim>\<open>UPDATE\<close> of the
  row and the \<^verbatim>\<open>INSERT\<close> into \<^verbatim>\<open>transactions\<close> are one transaction. The \<^verbatim>\<open>INSERT\<close>
  takes \<^verbatim>\<open>utcnow().isoformat()\<close> for the column \<^verbatim>\<open>timestamp\<close>; when that raises, the
  \<^verbatim>\<open>UPDATE\<close> before it is rolled back and the \<^verbatim>\<open>except\<close> (lines 567-569) returns the
  balance read at the start, with the flag false.
\<close>

definition update_user_balance ::
  "discord_bot \<Rightarrow> instant \<Rightarrow> db \<Rightarrow> int \<Rightarrow> int \<Rightarrow> int \<Rightarrow> description \<Rightarrow> (int \<times> bool) \<times> db" where
  "update_user_balance client now s user_id guild_id gold_change descr =
     (case get_user_balance s user_id guild_id of
        ((current_gold, wins, losses, total_earned, total_spent, adm), s1) \<Rightarrow>
     (case get_gold_cap client s1 user_id guild_id of
        (gold_cap, s2) \<Rightarrow>
          let new_gold = min (max 0 (current_gold + gold_change)) gold_cap;
              new_total_earned =
                (if gold_change > 0 then total_earned + gold_change else total_earned);
              new_total_spent =
                (if gold_change > 0 then total_spent else total_spent + \<bar>gold_change\<bar>)
          in (case timestamp_argument (isoformat now) of
                Inl e \<Rightarrow> ((current_gold, False), s2)
              | Inr timestamp \<Rightarrow>
                  let s3 = update_row s2 (user_id, guild_id)
                             (\<lambda>row. row\<lparr>gold := new_gold,
                                         total_gold_earned := new_total_earned,
                                         total_gold_spent := new_total_spent\<rparr>);
                      s4 = s3\<lparr>transactions := transactions s3 @
                             [\<lparr>t_user_id = user_id, t_guild_id = guild_id,
                               t_type = ''balance_change'', t_amount = gold_change,
                               t_description = descr, t_timestamp = timestamp,
                               t_balance_after = new_gold\<rparr>]\<rparr>;
                      actual_gold_change = new_gold - current_gold
                  in ((new_gold, actual_gold_change < gold_change), s4))))"


section \<open>Texts returned to the presentation layer\<close>

text \<open>
  A reason or status text: \<open>Empty\<close> is \<^verbatim>\<open>""\<close>, \<open>Literal\<close> a string literal of the
  source, and each other constructor one f-string of the source with the numbers it
  formats:
  \<^item> \<open>Allowance_exhausted n\<close>: "Thou hast exhausted thy weekly gambling allowance! Thou
    hast used all n tries this week.";
  \<^item> \<open>Purse_at_maximum cap\<close>: "Thy purse is already at the maximum of cap gold pieces!";
  \<^item> \<open>Winnings_capped new_gold\<close>: "Thy winnings were capped at new_gold gold pieces!";
  \<^item> \<open>Tries_info remaining n\<close>: "Weekly Gambling: remaining/n tries remaining this week";
  \<^item> \<open>Recipient_purse_full cap\<close>: "The recipient's purse cannot hold more than cap gold
    pieces!";
  \<^item> \<open>Need_gold total host_gold\<close>: "Thou needst total gold to fund this tournament! Thy
    purse contains only host_gold.";
  \<^item> \<open>Time_remaining seconds\<close>: \<^verbatim>\<open>format_time_remaining(seconds)\<close>;
  \<^item> \<open>Gold_cannot_exceed cap\<close>: "Thy gold cannot exceed cap gold pieces!";
  \<^item> \<open>Already_possess role\<close>: "Thou already possess the role station!".

  \<open>Text\<close> is a string that is not a literal of the source: the name of a shop item.
\<close>

datatype message =
    Empty
  | Literal string
  | Allowance_exhausted int
  | Purse_at_maximum int
  | Winnings_capped int
  | Tries_info int int
  | Recipient_purse_full int
  | Need_gold int int
  | Time_remaining real
  | Gold_cannot_exceed int
  | Already_possess int
  | Text string

section \<open>Claim scheduler\<close>

text \<open>\<^verbatim>\<open>can_claim_admin_monthly\<close> (lines 571-589); 2592000 seconds are 30 days.\<close>

definition can_claim_admin_monthly :: "instant \<Rightarrow> db \<Rightarrow> int \<Rightarrow> int \<Rightarrow> bool" where
  "can_claim_admin_monthly now s user_id guild_id =
     (case user_economy s (user_id, guild_id) of
        None \<Rightarrow> True
      | Some row \<Rightarrow>
          (case admin_monthly_claimed row of
             None \<Rightarrow> True
           | Some last_claimed \<Rightarrow>
               (let time_since = now - last_claimed in time_since \<ge> 2592000 * SECOND)))"

text \<open>
  \<^verbatim>\<open>claim_admin_monthly_bonus\<close> (lines 591-641). \<^verbatim>\<open>fetchval(...) or 0\<close> reads the gold of
  the row, and 0 when there is no row. The three statements that write are one
  transaction, and each takes \<^verbatim>\<open>utcnow().isoformat()\<close> for a timestamp column
  (\<^verbatim>\<open>admin_monthly_claimed\<close>, \<^verbatim>\<open>timestamp\<close>, \<^verbatim>\<open>claimed_at\<close>); the first to raise is the
  \<^verbatim>\<open>UPDATE\<close>, and the \<^verbatim>\<open>except\<close> (lines 639-641) returns the text about the treasury.
\<close>

definition claim_admin_monthly_bonus ::
  "discord_bot \<Rightarrow> instant \<Rightarrow> db \<Rightarrow> int \<Rightarrow> int \<Rightarrow> (bool \<times> int \<times> message) \<times> db" where
  "claim_admin_monthly_bonus client now s user_id guild_id =
     (case is_user_admin client s user_id guild_id of
        (adm, s1) \<Rightarrow>
          if \<not> adm
          then ((False, 0, Literal ''Only royal administrators may claim this bounty!''), s1)
          else if \<not> can_claim_admin_monthly now s1 user_id guild_id
          then ((False, 0,
                 Literal ''Thou hast already received thy monthly administrator's bounty!''), s1)
          else
            (case client guild_id of
               None \<Rightarrow> ((False, 0, Literal ''Guild not found!''), s1)
             | Some guild \<Rightarrow>
                 if (case get_member guild user_id of
                       None \<Rightarrow> True
                     | Some member \<Rightarrow> \<not> administrator member)
                 then ((False, 0,
                        Literal ''Thou must have Administrator permissions to claim this bounty!''),
                       s1)
                 else
                   let current_gold =
                         (case user_economy s1 (user_id, guild_id) of
                            None \<Rightarrow> 0 | Some row \<Rightarrow> gold row)
                   in (case timestamp_argument (isoformat now) of
                         Inl e \<Rightarrow>
                           ((False, 0, Literal ''An error befell the royal treasury!''), s1)
                       | Inr timestamp \<Rightarrow>
                           let s2 = update_row s1 (user_id, guild_id)
                                      (\<lambda>row. row\<lparr>gold := gold row + ADMIN_MONTHLY_BONUS,
                                                  admin_monthly_claimed := Some timestamp\<rparr>);
                               s3 = s2\<lparr>transactions := transactions s2 @
                                      [\<lparr>t_user_id = user_id, t_guild_id = guild_id,
                                        t_type = ''admin_monthly'',
                                        t_amount = ADMIN_MONTHLY_BONUS,
                                        t_description =
                                          Plain ''Royal administrator monthly bounty'',
                                        t_timestamp = timestamp,
                                        t_balance_after = current_gold + ADMIN_MONTHLY_BONUS\<rparr>]\<rparr>;
                               s4 = s3\<lparr>admin_monthly_claims := admin_monthly_claims s3 @
                                      [\<lparr>c_user_id = user_id, c_guild_id = guild_id,
                                        c_claimed_at = timestamp,
                                        c_amount = ADMIN_MONTHLY_BONUS\<rparr>]\<rparr>
                           in ((True, ADMIN_MONTHLY_BONUS, Empty), s4))))"

text \<open>\<^verbatim>\<open>can_claim_daily\<close> (lines 643-661); 86400 seconds are 24 hours.\<close>

definition can_claim_daily :: "instant \<Rightarrow> db \<Rightarrow> int \<Rightarrow> int \<Rightarrow> bool" where
  "can_claim_daily now s user_id guild_id =
     (case user_economy s (user_id, guild_id) of
        None \<Rightarrow> True
      | Some row \<Rightarrow>
          (case daily_claimed row of
             None \<Rightarrow> True
           | Some last_claimed \<Rightarrow>
               (let time_since = now - last_claimed in time_since \<ge> 86400 * SECOND)))"

text \<open>\<^verbatim>\<open>claim_daily\<close> (lines 663-677). \<open>daily_amount\<close> is what \<^verbatim>\<open>random.randint(3, 7)\<close>
  returned. Both branches on \<^verbatim>\<open>capped\<close> return the same pair. The function sends no
  statement of its own, and \<^verbatim>\<open>update_user_balance\<close> raises nothing.\<close>

definition claim_daily ::
  "discord_bot \<Rightarrow> instant \<Rightarrow> int \<Rightarrow> db \<Rightarrow> int \<Rightarrow> int \<Rightarrow> (bool \<times> int) \<times> db" where
  "claim_daily client now daily_amount s user_id guild_id =
     (if \<not> can_claim_daily now s user_id guild_id then ((False, 0), s)
      else
        (case update_user_balance client now s user_id guild_id daily_amount
                (Plain ''Royal daily stipend'') of
           ((new_gold, capped), s1) \<Rightarrow>
             if capped then ((True, daily_amount), s1) else ((True, daily_amount), s1)))"

text \<open>\<^verbatim>\<open>get_labour_cooldown_status\<close> (lines 679-705); the remaining time is in
  seconds.\<close>

definition get_labour_cooldown_status ::
  "instant \<Rightarrow> db \<Rightarrow> int \<Rightarrow> int \<Rightarrow> bool \<times> real \<times> message" where
  "get_labour_cooldown_status current_time s user_id guild_id =
     (case user_economy s (user_id, guild_id) of
        None \<Rightarrow> (True, 0, Literal ''Ready to work'')
      | Some row \<Rightarrow>
          (case work_cooldown row of
             None \<Rightarrow> (True, 0, Literal ''Ready to work'')
           | Some last_work \<Rightarrow>
               (let time_since = current_time - last_work;
                    cooldown = LABOUR_COOLDOWN_HOURS * 3600 * SECOND
                in if time_since \<ge> cooldown then (True, 0, Literal ''Ready to work'')
                   else
                     (let remaining = real_of_int (cooldown - time_since) / 1000000
                      in (False, remaining, Time_remaining remaining)))))"

text \<open>\<^verbatim>\<open>work\<close> (lines 707-732). \<open>work_amount\<close> is what \<^verbatim>\<open>random.randint(8, 15)\<close>
  returned. The \<^verbatim>\<open>UPDATE\<close> of \<^verbatim>\<open>work_cooldown\<close> takes \<^verbatim>\<open>utcnow().isoformat()\<close>; when it
  raises, the \<^verbatim>\<open>except\<close> (lines 730-732) returns \<^verbatim>\<open>(False, 0, 0)\<close>.\<close>

definition work ::
  "discord_bot \<Rightarrow> instant \<Rightarrow> int \<Rightarrow> db \<Rightarrow> int \<Rightarrow> int \<Rightarrow> (bool \<times> int \<times> real) \<times> db" where
  "work client now work_amount s user_id guild_id =
     (case get_labour_cooldown_status now s user_id guild_id of
        (can_work, remaining_time, status_msg) \<Rightarrow>
          if \<not> can_work then ((False, 0, remaining_time), s)
          else
            (case update_user_balance client now s user_id guild_id work_amount
                    (Plain ''Honest labour in the royal demesne'') of
               ((new_gold, capped), s1) \<Rightarrow>
                 (case timestamp_argument (isoformat now) of
                    Inl e \<Rightarrow> ((False, 0, 0), s1)
                  | Inr timestamp \<Rightarrow>
                      let s2 = update_row s1 (user_id, guild_id)
                                 (\<lambda>row. row\<lparr>work_cooldown := Some timestamp\<rparr>)
                      in if capped then ((True, work_amount, 0), s2)
                         else ((True, work_amount, 0), s2))))"

section \<open>Wagering engine\<close>

text \<open>
  \<^verbatim>\<open>can_gamble_weekly\<close> (lines 438-456): the attempts of the account since the start of
  the week. The count query takes \<^verbatim>\<open>week_start.isoformat()\<close> for the parameter compared
  with the column \<^verbatim>\<open>timestamp\<close>; when it raises, the \<^verbatim>\<open>except\<close> (lines 454-456) returns
  \<^verbatim>\<open>(True, WEEKLY_GAMBLING_TRIES, 0)\<close>.
\<close>

definition can_gamble_weekly :: "instant \<Rightarrow> db \<Rightarrow> int \<Rightarrow> int \<Rightarrow> bool \<times> int \<times> int" where
  "can_gamble_weekly now s user_id guild_id =
     (let week_start = get_week_start now
      in case timestamp_argument (isoformat week_start) of
           Inl e \<Rightarrow> (True, WEEKLY_GAMBLING_TRIES, 0)
         | Inr since \<Rightarrow>
             let current_tries =
                   int (length (filter (\<lambda>r. g_user_id r = user_id \<and> g_guild_id r = guild_id
                                              \<and> g_timestamp r \<ge> since)
                                  (gambling_records s)));
                 remaining = max 0 (WEEKLY_GAMBLING_TRIES - current_tries)
             in (remaining > 0, remaining, current_tries))"

text \<open>
  The games of \<^verbatim>\<open>gamble\<close> (lines 756-781): the pair \<^verbatim>\<open>(win, multiplier)\<close>, or \<open>None\<close>
  for the last \<^verbatim>\<open>else\<close> (an unknown game). \<open>roll\<close> is what \<^verbatim>\<open>random.random()\<close>
  returned, a double \<open>k / 2 ^ 53\<close> with \<open>0 \<le> k < 2 ^ 53\<close>; each game draws once. A
  threshold is the double its literal denotes, written as the exact fraction, and a
  comparison of two doubles is the comparison of their values.
\<close>

definition float_0_5 :: real where "float_0_5 = 1 / 2"
definition float_0_48 :: real where "float_0_48 = 4323455642275676 / 2 ^ 53"
definition float_0_05 :: real where "float_0_05 = 3602879701896397 / 2 ^ 56"
definition float_0_15 :: real where "float_0_15 = 5404319552844595 / 2 ^ 55"
definition float_0_45 :: real where "float_0_45 = 8106479329266893 / 2 ^ 54"

definition medieval_game :: "string \<Rightarrow> real \<Rightarrow> (bool \<times> int) option" where
  "medieval_game game_type roll =
     (if game_type = ''dice'' then
        (let win = roll < float_0_5 in Some (win, if win then 2 else 0))
      else if game_type = ''coin'' then
        (let win = roll < float_0_48 in Some (win, if win then 2 else 0))
      else if game_type = ''slots'' then
        (if roll < float_0_05 then Some (True, 10)
         else if roll < float_0_15 then Some (True, 3)
         else if roll < float_0_45 then Some (True, 2)
         else Some (False, 0))
      else None)"

text \<open>
  \<^verbatim>\<open>gamble\<close> (lines 734-820), the spec's \<open>play\<close>. The counter \<^verbatim>\<open>UPDATE\<close> and the
  \<^verbatim>\<open>INSERT\<close> into \<^verbatim>\<open>gambling_records\<close> are one transaction. The \<^verbatim>\<open>INSERT\<close> takes
  \<^verbatim>\<open>utcnow().isoformat()\<close> for the column \<^verbatim>\<open>timestamp\<close>; when that raises, the counter
  \<^verbatim>\<open>UPDATE\<close> is rolled back and the \<^verbatim>\<open>except\<close> (lines 818-820) returns the text about the
  ill omen.
\<close>

definition gamble ::
  "discord_bot \<Rightarrow> instant \<Rightarrow> real \<Rightarrow> db \<Rightarrow> int \<Rightarrow> int \<Rightarrow> int \<Rightarrow> string
     \<Rightarrow> (bool \<times> int \<times> message) \<times> db" where
  "gamble client now roll s user_id guild_id amount game_type =
     (case can_gamble_weekly now s user_id guild_id of
        (can_gamble, remaining_tries, used_tries) \<Rightarrow>
     if \<not> can_gamble then ((False, 0, Allowance_exhausted WEEKLY_GAMBLING_TRIES), s)
     else
     (case get_user_balance s user_id guild_id of
        ((current_gold, wins, losses, total_earned, total_spent, adm), s1) \<Rightarrow>
     (case get_gold_cap client s1 user_id guild_id of
        (gold_cap, s2) \<Rightarrow>
     if amount \<le> 0
     then ((False, 0, Literal ''Thou must wager a positive sum, good master!''), s2)
     else if amount > current_gold
     then ((False, 0, Literal ''Thy purse contains insufficient coin for such a wager!''), s2)
     else if current_gold \<ge> gold_cap
     then ((False, 0, Purse_at_maximum gold_cap), s2)
     else
     (case medieval_game game_type roll of
        None \<Rightarrow> ((False, 0, Literal ''Such games are unknown in our realm!''), s2)
      | Some (win, multiplier) \<Rightarrow>
          let win_amount = (if win then amount * multiplier else 0);
              net_change = win_amount - amount
          in (case update_user_balance client now s2 user_id guild_id net_change
                      (Gamed amount game_type win) of
                ((new_gold, capped), s3) \<Rightarrow>
                  (case timestamp_argument (isoformat now) of
                     Inl e \<Rightarrow> ((False, 0, Literal ''An ill omen befell thy game!''), s3)
                   | Inr timestamp \<Rightarrow>
                       let s4 = (if win
                                 then update_row s3 (user_id, guild_id)
                                        (\<lambda>row. row\<lparr>gamble_wins := gamble_wins row + 1\<rparr>)
                                 else update_row s3 (user_id, guild_id)
                                        (\<lambda>row. row\<lparr>gamble_losses := gamble_losses row + 1\<rparr>));
                           s5 = s4\<lparr>gambling_records := gambling_records s4 @
                                  [\<lparr>g_user_id = user_id, g_guild_id = guild_id,
                                    g_game_type = game_type, g_bet_amount = amount,
                                    g_win_amount = win_amount,
                                    g_outcome = (if win then ''win'' else ''loss''),
                                    g_timestamp = timestamp\<rparr>]\<rparr>
                       in if capped \<and> win
                          then ((win, win_amount, Winnings_capped new_gold), s5)
                          else
                            (let new_remaining = remaining_tries - 1
                             in ((win, win_amount,
                                  Tries_info new_remaining WEEKLY_GAMBLING_TRIES), s5))))))))"

section \<open>Transfers\<close>

text \<open>\<^verbatim>\<open>transfer_gold\<close> (lines 822-849). It sends no statement of its own.\<close>

definition transfer_gold ::
  "discord_bot \<Rightarrow> instant \<Rightarrow> db \<Rightarrow> int \<Rightarrow> int \<Rightarrow> int \<Rightarrow> int \<Rightarrow> (bool \<times> message) \<times> db" where
  "transfer_gold client now s sender_id receiver_id guild_id amount =
     (case get_user_balance s sender_id guild_id of
        ((sender_gold, _), s1) \<Rightarrow>
     (case get_user_balance s1 receiver_id guild_id of
        ((receiver_gold, _), s2) \<Rightarrow>
     (case get_gold_cap client s2 receiver_id guild_id of
        (receiver_cap, s3) \<Rightarrow>
     if amount \<le> 0 then ((False, Literal ''Thy sum must be positive, good master!''), s3)
     else if amount > sender_gold
     then ((False, Literal ''Thy purse contains insufficient coin!''), s3)
     else if sender_id = receiver_id
     then ((False, Literal ''Thou canst not pay thyself, good sir!''), s3)
     else if receiver_gold + amount > receiver_cap
     then ((False, Recipient_purse_full receiver_cap), s3)
     else
       (case update_user_balance client now s3 sender_id guild_id (- amount)
               (Paid amount receiver_id) of
          (_, s4) \<Rightarrow>
       (case update_user_balance client now s4 receiver_id guild_id amount
               (Received amount sender_id) of
          (_, s5) \<Rightarrow> ((True, Empty), s5))))))"

section \<open>Shop\<close>

text \<open>
  \<^verbatim>\<open>buy_item\<close> (lines 921-984). \<open>guild\<close> is the guild object the command passes.
  \<^verbatim>\<open>item['role_id']\<close> is true for a role id that is neither \<^verbatim>\<open>NULL\<close> nor 0.
  \<open>roles_added\<close> says whether \<^verbatim>\<open>member.add_roles(role)\<close> returned, rather than raised
  \<^verbatim>\<open>Forbidden\<close> or \<^verbatim>\<open>HTTPException\<close>. The third component of the result is the role
  whose mention is returned. The \<^verbatim>\<open>INSERT\<close> into \<^verbatim>\<open>user_inventory\<close> takes
  \<^verbatim>\<open>utcnow().isoformat()\<close> for the column \<^verbatim>\<open>purchased_at\<close>; it is the first statement of
  the transaction that writes, so when it raises nothing is rolled back, and the
  \<^verbatim>\<open>except\<close> (lines 982-984) returns the text about the purchase.
\<close>

definition buy_item ::
  "discord_bot \<Rightarrow> instant \<Rightarrow> bool \<Rightarrow> db \<Rightarrow> int \<Rightarrow> int \<Rightarrow> int \<Rightarrow> guild
     \<Rightarrow> (bool \<times> message \<times> int option) \<times> db" where
  "buy_item client now roles_added s user_id guild_id item_id guild =
     (case (case shop_items s item_id of
              None \<Rightarrow> None
            | Some row \<Rightarrow> if i_guild_id row = guild_id then Some row else None) of
        None \<Rightarrow> ((False, Literal ''Such merchandise exists not in our realm!'', None), s)
      | Some item \<Rightarrow>
     if i_stock item = 0
     then ((False, Literal ''This treasure is sold out, good master!'', None), s)
     else
     (case get_user_balance s user_id guild_id of
        ((user_gold, _), s1) \<Rightarrow>
     (case get_gold_cap client s1 user_id guild_id of
        (gold_cap, s2) \<Rightarrow>
     if user_gold < i_price item
     then ((False, Literal ''Thy purse lacks sufficient coin for this purchase!'', None), s2)
     else if user_gold - i_price item > gold_cap
     then ((False, Gold_cannot_exceed gold_cap, None), s2)
     else
       let member = get_member guild user_id;
           role_id = (case i_role_id item of
                        None \<Rightarrow> None
                      | Some r \<Rightarrow> if r = 0 then None else Some r);
           existing_role =
             (case (member, role_id) of
                (Some m, Some r) \<Rightarrow>
                  (case get_role guild r of
                     None \<Rightarrow> None
                   | Some role \<Rightarrow> if role \<in> set (roles m) then Some role else None)
              | _ \<Rightarrow> None)
       in (case existing_role of
             Some role \<Rightarrow> ((False, Already_possess role, None), s2)
           | None \<Rightarrow>
       (case update_user_balance client now s2 user_id guild_id (- i_price item)
               (Purchased (i_name item)) of
          ((new_gold, capped), s3) \<Rightarrow>
       (case timestamp_argument (isoformat now) of
          Inl e \<Rightarrow> ((False, Literal ''The purchase failed most grievously!'', None), s3)
        | Inr timestamp \<Rightarrow>
            let s4 = s3\<lparr>user_inventory := user_inventory s3 @
                       [\<lparr>v_user_id = user_id, v_guild_id = guild_id, v_item_id = item_id,
                         v_purchased_at = timestamp\<rparr>]\<rparr>;
                s5 = (if i_stock item > 0
                      then s4\<lparr>shop_items := (shop_items s4)(item_id \<mapsto>
                                 item\<lparr>i_stock := i_stock item - 1\<rparr>)\<rparr>
                      else s4)
            in (case (role_id, member) of
                  (Some r, Some m) \<Rightarrow>
                    (case get_role guild r of
                       None \<Rightarrow> ((True, Text (i_name item), None), s5)
                     | Some role \<Rightarrow>
                         if roles_added then ((True, Text (i_name item), Some role), s5)
                         else ((True, Text (i_name item), None), s5))
                | _ \<Rightarrow> ((True, Text (i_name item), None), s5))))))))"

section \<open>Drawing lifecycle\<close>

text \<open>
  \<^verbatim>\<open>create_giveaway\<close> (lines 1017-1029): the new row takes the next value of the
  \<^verbatim>\<open>SERIAL\<close> key and the default status \<^verbatim>\<open>'active'\<close>. The \<^verbatim>\<open>INSERT\<close> takes
  \<^verbatim>\<open>end_time.isoformat()\<close> for the column \<^verbatim>\<open>end_time\<close>; when it raises, the \<^verbatim>\<open>except\<close>
  (lines 1027-1029) returns \<^verbatim>\<open>False\<close>.
\<close>

definition create_giveaway ::
  "db \<Rightarrow> int \<Rightarrow> int \<Rightarrow> int \<Rightarrow> int \<Rightarrow> string \<Rightarrow> int \<Rightarrow> instant \<Rightarrow> int \<Rightarrow> bool \<times> db" where
  "create_giveaway s guild_id channel_id message_id host_id prize_name prize_amount end_time
     winner_count =
     (case timestamp_argument (isoformat end_time) of
        Inl e \<Rightarrow> (False, s)
      | Inr ends \<Rightarrow>
          (True,
           s\<lparr>active_giveaways := (active_giveaways s)(next_giveaway_id s \<mapsto>
                \<lparr>gw_guild_id = guild_id, gw_channel_id = channel_id,
                 gw_message_id = message_id, gw_host_id = host_id,
                 gw_prize_name = prize_name, gw_prize_amount = prize_amount,
                 gw_end_time = ends, gw_winner_count = winner_count,
                 gw_status = ''active''\<rparr>),
             next_giveaway_id := next_giveaway_id s + 1\<rparr>))"

text \<open>\<^verbatim>\<open>get_giveaway_entries\<close> (lines 1054-1066).\<close>

definition get_giveaway_entries :: "db \<Rightarrow> int \<Rightarrow> int list" where
  "get_giveaway_entries s giveaway_id =
     map e_user_id (filter (\<lambda>row. e_giveaway_id row = giveaway_id) (giveaway_entries s))"

text \<open>\<^verbatim>\<open>enter_giveaway\<close> (lines 1031-1052). The \<^verbatim>\<open>INSERT\<close> takes
  \<^verbatim>\<open>utcnow().isoformat()\<close> for the column \<^verbatim>\<open>entered_at\<close>; when it raises, the \<^verbatim>\<open>except\<close>
  (lines 1050-1052) returns the text about the failed entry.\<close>

definition enter_giveaway :: "instant \<Rightarrow> db \<Rightarrow> int \<Rightarrow> int \<Rightarrow> (bool \<times> message) \<times> db" where
  "enter_giveaway now s giveaway_id user_id =
     (case find (\<lambda>row. e_giveaway_id row = giveaway_id \<and> e_user_id row = user_id)
             (giveaway_entries s) of
        Some existing \<Rightarrow> ((False, Literal ''Already entered''), s)
      | None \<Rightarrow>
          (case timestamp_argument (isoformat now) of
             Inl e \<Rightarrow> ((False, Literal ''Entry failed''), s)
           | Inr timestamp \<Rightarrow>
               ((True, Literal ''Entered successfully''),
                s\<lparr>giveaway_entries := giveaway_entries s @
                    [\<lparr>e_giveaway_id = giveaway_id, e_user_id = user_id,
                      e_entered_at = timestamp\<rparr>]\<rparr>)))"

text \<open>
  \<^verbatim>\<open>random.sample(population, k)\<close>: a \<^verbatim>\<open>ValueError\<close> (\<open>None\<close>) when \<open>k\<close> is negative or
  larger than the population, and otherwise the elements at the positions the generator
  chose. \<open>picks\<close> is that choice; \<open>valid_picks\<close> is what the library promises of it:
  \<open>k\<close> positions of the population, no position twice.
\<close>

definition random_sample :: "nat list \<Rightarrow> 'a list \<Rightarrow> int \<Rightarrow> 'a list option" where
  "random_sample picks population k =
     (if k < 0 \<or> int (length population) < k then None
      else Some (map (\<lambda>i. population ! i) picks))"


text \<open>\<^verbatim>\<open>UPDATE active_giveaways SET status='ended' WHERE id=$1\<close>.\<close>

definition mark_ended :: "db \<Rightarrow> int \<Rightarrow> db" where
  "mark_ended s giveaway_id =
     (case active_giveaways s giveaway_id of
        None \<Rightarrow> s
      | Some row \<Rightarrow>
          s\<lparr>active_giveaways := (active_giveaways s)(giveaway_id \<mapsto>
               row\<lparr>gw_status := ''ended''\<rparr>)\<rparr>)"

text \<open>The loop \<^verbatim>\<open>for winner_id in winners: await update_user_balance(...)\<close> of
  \<^verbatim>\<open>end_giveaway\<close>.\<close>

fun award_prizes :: "discord_bot \<Rightarrow> instant \<Rightarrow> db \<Rightarrow> giveaway \<Rightarrow> int list \<Rightarrow> db" where
  "award_prizes client now s giveaway [] = s"
| "award_prizes client now s giveaway (winner_id # winners) =
     award_prizes client now
       (snd (update_user_balance client now s winner_id (gw_guild_id giveaway)
               (gw_prize_amount giveaway) (Won_tournament (gw_prize_name giveaway))))
       giveaway winners"

text \<open>\<^verbatim>\<open>end_giveaway\<close> (lines 1068-1109). The \<^verbatim>\<open>ValueError\<close> of \<^verbatim>\<open>random.sample\<close>
  is caught by the \<^verbatim>\<open>except\<close>, before any statement has written. No statement of the
  function itself takes a timestamp.\<close>

definition end_giveaway ::
  "discord_bot \<Rightarrow> instant \<Rightarrow> nat list \<Rightarrow> db \<Rightarrow> int
     \<Rightarrow> (int list option \<times> giveaway option) \<times> db" where
  "end_giveaway client now picks s giveaway_id =
     (case (case active_giveaways s giveaway_id of
              None \<Rightarrow> None
            | Some row \<Rightarrow> if gw_status row = ''active'' then Some row else None) of
        None \<Rightarrow> ((None, None), s)
      | Some giveaway \<Rightarrow>
          let entries = get_giveaway_entries s giveaway_id
          in if entries = []
             then ((Some [], Some giveaway), mark_ended s giveaway_id)
             else
               (let winner_count = min (gw_winner_count giveaway) (int (length entries))
                in case random_sample picks entries winner_count of
                     None \<Rightarrow> ((None, None), s)
                   | Some winners \<Rightarrow>
                       let s1 = mark_ended s giveaway_id;
                           s2 = award_prizes client now s1 giveaway winners
                       in ((Some winners, Some giveaway), s2)))"

text \<open>
  \<^verbatim>\<open>tournament_cmd\<close> (lines 1923-2021) and \<^verbatim>\<open>slash_tournament\<close> (lines 3053-3154),
  which differ only in how the reply is sent. \<open>has_permission\<close> is what
  \<^verbatim>\<open>has_giveaway_permission\<close> returned and \<open>message_id\<close> the id of the announcement the
  platform posted. The reply is a refusal with its text, the announcement alone
  (the drawing is created and funded), or the announcement followed by "The tournament
  creation failed!" (lines 2017-2018), after which nothing is deducted.
\<close>

datatype reply = Refused message | Tournament_created | Creation_failed

definition tournament_cmd ::
  "bool \<Rightarrow> discord_bot \<Rightarrow> instant \<Rightarrow> db \<Rightarrow> int \<Rightarrow> int \<Rightarrow> int \<Rightarrow> int \<Rightarrow> int \<Rightarrow> int \<Rightarrow> int
     \<Rightarrow> string \<Rightarrow> reply \<times> db" where
  "tournament_cmd has_permission client now s author_id guild_id channel_id message_id
     duration_minutes winner_count prize_amount prize_name =
     (if \<not> has_permission
      then (Refused (Literal
              ''Thou lacketh permission to host tournaments! Seek the steward's blessing.''), s)
      else if duration_minutes < 5 \<or> duration_minutes > 1440
      then (Refused (Literal ''Tournaments must last between 5 minutes and 24 hours!''), s)
      else if winner_count < 1 \<or> winner_count > 10
      then (Refused (Literal ''A tournament must have 1-10 winners!''), s)
      else if prize_amount < 1
      then (Refused (Literal ''The prize must be at least 1 gold piece!''), s)
      else
        (case get_user_balance s author_id guild_id of
           ((host_gold, _), s1) \<Rightarrow>
             let total_prize = prize_amount * winner_count
             in if host_gold < total_prize
                then (Refused (Need_gold total_prize host_gold), s1)
                else
                  (let end_time = now + duration_minutes * MINUTE
                   in case create_giveaway s1 guild_id channel_id message_id author_id
                             prize_name prize_amount end_time winner_count of
                        (success, s2) \<Rightarrow>
                          if success
                          then (Tournament_created,
                                snd (update_user_balance client now s2 author_id guild_id
                                       (- total_prize) (Funded_tournament prize_name)))
                          else (Creation_failed, s2))))"

definition slash_tournament ::
  "bool \<Rightarrow> discord_bot \<Rightarrow> instant \<Rightarrow> db \<Rightarrow> int \<Rightarrow> int \<Rightarrow> int \<Rightarrow> int \<Rightarrow> int \<Rightarrow> int \<Rightarrow> int
     \<Rightarrow> string \<Rightarrow> reply \<times> db" where
  "slash_tournament = tournament_cmd"

section \<open>Observations and sample states\<close>

text \<open>
  What a caller sees of an account: the tuple \<^verbatim>\<open>get_user_balance\<close> returns, and the
  ceiling \<^verbatim>\<open>get_gold_cap\<close> returns for it.
\<close>

definition balance_of :: "db \<Rightarrow> int \<Rightarrow> int \<Rightarrow> int" where
  "balance_of s user_id guild_id = fst (fst (get_user_balance s user_id guild_id))"

definition gold_cap_of :: "discord_bot \<Rightarrow> db \<Rightarrow> int \<Rightarrow> int \<Rightarrow> int" where
  "gold_cap_of client s user_id guild_id =
     fst (get_gold_cap client (snd (get_user_balance s user_id guild_id)) user_id guild_id)"

definition earned_of :: "db \<Rightarrow> int \<Rightarrow> int \<Rightarrow> int" where
  "earned_of s user_id guild_id =
     (case fst (get_user_balance s user_id guild_id) of (_, _, _, e, _, _) \<Rightarrow> e)"

definition spent_of :: "db \<Rightarrow> int \<Rightarrow> int \<Rightarrow> int" where
  "spent_of s user_id guild_id =
     (case fst (get_user_balance s user_id guild_id) of (_, _, _, _, sp, _) \<Rightarrow> sp)"

definition wins_of :: "db \<Rightarrow> int \<Rightarrow> int \<Rightarrow> int" where
  "wins_of s user_id guild_id =
     (case fst (get_user_balance s user_id guild_id) of (_, w, _, _, _, _) \<Rightarrow> w)"

definition losses_of :: "db \<Rightarrow> int \<Rightarrow> int \<Rightarrow> int" where
  "losses_of s user_id guild_id =
     (case fst (get_user_balance s user_id guild_id) of (_, _, l, _, _, _) \<Rightarrow> l)"

text \<open>The row of an account, a missing one read as the row its first read creates; and
  the platform's half of \<^verbatim>\<open>is_user_admin\<close>.\<close>

definition row_of :: "db \<Rightarrow> int \<Rightarrow> int \<Rightarrow> account" where
  "row_of s user_id guild_id =
     (case user_economy s (user_id, guild_id) of None \<Rightarrow> new_account | Some row \<Rightarrow> row)"

definition platform_admin :: "discord_bot \<Rightarrow> int \<Rightarrow> int \<Rightarrow> bool" where
  "platform_admin client user_id guild_id =
     (case client guild_id of
        None \<Rightarrow> False
      | Some guild \<Rightarrow>
          (case get_member guild user_id of
             None \<Rightarrow> False
           | Some member \<Rightarrow> administrator member))"

definition admin_of :: "discord_bot \<Rightarrow> db \<Rightarrow> int \<Rightarrow> int \<Rightarrow> bool" where
  "admin_of client s user_id guild_id =
     (is_admin (row_of s user_id guild_id) \<or> platform_admin client user_id guild_id)"

text \<open>The row of an account as a read of its balance and ceiling leaves it: the
  administrator flag is set when the platform says administrator.\<close>

definition account_of :: "discord_bot \<Rightarrow> db \<Rightarrow> int \<Rightarrow> int \<Rightarrow> account" where
  "account_of client s user_id guild_id =
     (row_of s user_id guild_id)\<lparr>is_admin := admin_of client s user_id guild_id\<rparr>"

text \<open>The empty store, a platform that knows no guild, and one that knows the guild 1,
  which has the administrator 1, no other member and no role.\<close>

definition empty_db :: db where
  "empty_db =
     \<lparr>user_economy = Map.empty, transactions = [], gambling_records = [],
      active_giveaways = Map.empty, next_giveaway_id = 1, giveaway_entries = [],
      admin_monthly_claims = [], shop_items = Map.empty, user_inventory = []\<rparr>"

definition no_guilds :: discord_bot where
  "no_guilds = (\<lambda>guild_id. None)"

definition guild_one :: guild where
  "guild_one =
     \<lparr>get_member =
        (\<lambda>user_id. if user_id = 1 then Some \<lparr>administrator = True, roles = []\<rparr> else None),
      get_role = (\<lambda>role_id. None)\<rparr>"

definition one_admin :: discord_bot where
  "one_admin = (\<lambda>guild_id. if guild_id = 1 then Some guild_one else None)"

text \<open>The invariant of an account: its balance is between 0 and its ceiling.\<close>

definition within_ceiling :: "discord_bot \<Rightarrow> db \<Rightarrow> int \<Rightarrow> int \<Rightarrow> bool" where
  "within_ceiling client s user_id guild_id =
     (0 \<le> balance_of s user_id guild_id
      \<and> balance_of s user_id guild_id \<le> gold_cap_of client s user_id guild_id)"

text \<open>
  The store after a caller has read the balance and then the ceiling of an account, as
  \<^verbatim>\<open>gamble\<close> and \<^verbatim>\<open>update_user_balance\<close> do first.
\<close>

definition read_account :: "discord_bot \<Rightarrow> db \<Rightarrow> int \<Rightarrow> int \<Rightarrow> db" where
  "read_account client s user_id guild_id =
     snd (get_gold_cap client (snd (get_user_balance s user_id guild_id)) user_id guild_id)"



text \<open>An account of guild 1 that holds 49999999995 gold, five below the ceiling of a
  subject, and a second account with the starting gold.\<close>

definition rich_db :: db where
  "rich_db =
     empty_db\<lparr>user_economy := [(1, 1) \<mapsto> new_account\<lparr>gold := 49999999995\<rparr>,
                                 (2, 1) \<mapsto> new_account]\<rparr>"





text \<open>A store whose shop of guild 1 sells the item 1, a crown for 50 gold with no role
  and a stock of 3.\<close>

definition shop_db :: db where
  "shop_db =
     empty_db\<lparr>shop_items :=
       [1 \<mapsto> \<lparr>i_guild_id = 1, i_name = ''crown'', i_price = 50, i_role_id = None,
                    i_stock = 3\<rparr>]\<rparr>"

section \<open>Timestamp arguments\<close>

text \<open>Every timestamp argument the source passes is made by \<^verbatim>\<open>isoformat()\<close>, and the
  driver refuses it.\<close>

lemma timestamp_isoformat: "timestamp_argument (isoformat t) = Inl DataError"
  by (simp add: timestamp_argument_def isoformat_def)

section \<open>Reading an account\<close>

lemma is_user_admin_eq:
  "is_user_admin client s u g =
     (if (case user_economy s (u, g) of None \<Rightarrow> False | Some row \<Rightarrow> is_admin row) then (True, s)
      else if platform_admin client u g
           then (True, update_row s (u, g) (\<lambda>row. row\<lparr>is_admin := True\<rparr>))
           else (False, s))"
  by (auto simp: is_user_admin_def platform_admin_def split: option.splits)

lemma get_user_balance_eq:
  "get_user_balance s u g =
     ((gold (row_of s u g), gamble_wins (row_of s u g), gamble_losses (row_of s u g),
       total_gold_earned (row_of s u g), total_gold_spent (row_of s u g),
       is_admin (row_of s u g)),
      s\<lparr>user_economy := (user_economy s)((u, g) \<mapsto> row_of s u g)\<rparr>)"
  by (auto simp: get_user_balance_def row_of_def new_account_def fun_upd_idem
      split: option.splits)

lemma is_admin_update_True: "is_admin r \<Longrightarrow> r\<lparr>is_admin := True\<rparr> = r"
  by (cases r) simp

lemma is_admin_update_False: "\<not> is_admin r \<Longrightarrow> r\<lparr>is_admin := False\<rparr> = r"
  by (cases r) simp

text \<open>Reading the balance and then the ceiling leaves the store as it was, but for the
  row a first read creates and the administrator flag the platform grants.\<close>

lemma get_gold_cap_after_balance:
  "get_gold_cap client (snd (get_user_balance s u g)) u g =
     (if admin_of client s u g then MAX_GOLD_ADMIN else MAX_GOLD_NORMAL,
      s\<lparr>user_economy := (user_economy s)((u, g) \<mapsto> account_of client s u g)\<rparr>)"
proof (cases "is_admin (row_of s u g)")
  case True
  then show ?thesis
    by (simp add: get_gold_cap_def is_user_admin_eq get_user_balance_eq admin_of_def
        account_of_def is_admin_update_True)
next
  case False
  then show ?thesis
    by (simp add: get_gold_cap_def is_user_admin_eq get_user_balance_eq admin_of_def
        account_of_def update_row_def is_admin_update_False)
qed

lemma gold_cap_of_eq:
  "gold_cap_of client s u g =
     (if admin_of client s u g then MAX_GOLD_ADMIN else MAX_GOLD_NORMAL)"
  by (simp add: gold_cap_of_def get_gold_cap_after_balance)

lemma gold_cap_of_pos: "0 < gold_cap_of client s u g"
  by (simp add: gold_cap_of_eq MAX_GOLD_ADMIN_def MAX_GOLD_NORMAL_def)

lemma balance_of_eq: "balance_of s u g = gold (row_of s u g)"
  by (simp add: balance_of_def get_user_balance_eq)

lemma earned_of_eq: "earned_of s u g = total_gold_earned (row_of s u g)"
  by (simp add: earned_of_def get_user_balance_eq)

lemma spent_of_eq: "spent_of s u g = total_gold_spent (row_of s u g)"
  by (simp add: spent_of_def get_user_balance_eq)

lemma wins_of_eq: "wins_of s u g = gamble_wins (row_of s u g)"
  by (simp add: wins_of_def get_user_balance_eq)

lemma losses_of_eq: "losses_of s u g = gamble_losses (row_of s u g)"
  by (simp add: losses_of_def get_user_balance_eq)

lemma row_of_get_user_balance:
  "row_of (snd (get_user_balance s u g)) u' g' = row_of s u' g'"
  by (simp add: get_user_balance_eq row_of_def)

lemma read_account_eq:
  "read_account client s u g =
     s\<lparr>user_economy := (user_economy s)((u, g) \<mapsto> account_of client s u g)\<rparr>"
  by (simp add: read_account_def get_gold_cap_after_balance)

lemma row_of_read_account:
  "row_of (read_account client s u g) u' g' =
     (if (u', g') = (u, g) then account_of client s u g else row_of s u' g')"
  by (simp add: read_account_eq row_of_def)

lemma admin_of_read_account:
  "admin_of client (read_account client s u g) u' g' = admin_of client s u' g'"
  by (auto simp: admin_of_def row_of_read_account account_of_def)

lemma read_account_frame:
  "balance_of (read_account client s u g) u' g' = balance_of s u' g'"
  "wins_of (read_account client s u g) u' g' = wins_of s u' g'"
  "losses_of (read_account client s u g) u' g' = losses_of s u' g'"
  "earned_of (read_account client s u g) u' g' = earned_of s u' g'"
  "spent_of (read_account client s u g) u' g' = spent_of s u' g'"
  "gold_cap_of client (read_account client s u g) u' g' = gold_cap_of client s u' g'"
  "transactions (read_account client s u g) = transactions s"
  "gambling_records (read_account client s u g) = gambling_records s"
  by (simp_all add: balance_of_eq wins_of_eq losses_of_eq earned_of_eq spent_of_eq
      gold_cap_of_eq admin_of_read_account row_of_read_account account_of_def)
     (simp_all add: read_account_eq)

lemma get_user_balance_frame:
  "balance_of (snd (get_user_balance s u g)) u' g' = balance_of s u' g'"
  "wins_of (snd (get_user_balance s u g)) u' g' = wins_of s u' g'"
  "losses_of (snd (get_user_balance s u g)) u' g' = losses_of s u' g'"
  "gold_cap_of client (snd (get_user_balance s u g)) u' g' = gold_cap_of client s u' g'"
  "transactions (snd (get_user_balance s u g)) = transactions s"
  "gambling_records (snd (get_user_balance s u g)) = gambling_records s"
  by (simp_all add: balance_of_eq wins_of_eq losses_of_eq gold_cap_of_eq admin_of_def
      row_of_get_user_balance)
     (simp_all add: get_user_balance_eq)

text \<open>
  A read changes no account as \<open>account_of\<close> presents it: the row, a missing one as the
  row a first read creates, with the administrator flag a read would leave.
\<close>

lemma account_of_read_account:
  "account_of client (read_account client s u g) u' g' = account_of client s u' g'"
  by (simp add: account_of_def admin_of_read_account row_of_read_account)

lemma account_of_get_user_balance:
  "account_of client (snd (get_user_balance s u g)) u' g' = account_of client s u' g'"
  by (simp add: account_of_def admin_of_def row_of_get_user_balance)

lemma row_of_is_user_admin:
  "row_of (snd (is_user_admin client s u g)) u' g' =
     (if (u', g') = (u, g) \<and> user_economy s (u, g) \<noteq> None
      then account_of client s u g else row_of s u' g')"
proof (cases "user_economy s (u, g)")
  case None
  then show ?thesis
    by (simp add: is_user_admin_eq update_row_def)
next
  case (Some row)
  then have r: "row_of s u g = row"
    by (simp add: row_of_def)
  show ?thesis
  proof (cases "is_admin row")
    case True
    with Some r show ?thesis
      by (simp add: is_user_admin_eq account_of_def admin_of_def is_admin_update_True)
  next
    case False
    with Some r show ?thesis
      by (simp add: is_user_admin_eq account_of_def admin_of_def update_row_def row_of_def
          is_admin_update_False)
  qed
qed

lemma account_of_is_user_admin:
  "account_of client (snd (is_user_admin client s u g)) u' g' = account_of client s u' g'"
  by (simp add: account_of_def admin_of_def row_of_is_user_admin)

lemma is_user_admin_frame:
  "transactions (snd (is_user_admin client s u g)) = transactions s"
  "gambling_records (snd (is_user_admin client s u g)) = gambling_records s"
  "active_giveaways (snd (is_user_admin client s u g)) = active_giveaways s"
  "giveaway_entries (snd (is_user_admin client s u g)) = giveaway_entries s"
  "admin_monthly_claims (snd (is_user_admin client s u g)) = admin_monthly_claims s"
  by (simp_all add: is_user_admin_eq update_row_def split: option.splits)



text \<open>What the observers read of a store is what \<open>account_of\<close> holds.\<close>

lemma balance_of_account_of: "balance_of s u g = gold (account_of client s u g)"
  by (simp add: balance_of_eq account_of_def)

lemma gold_cap_of_account_of:
  "gold_cap_of client s u g =
     (if is_admin (account_of client s u g) then MAX_GOLD_ADMIN else MAX_GOLD_NORMAL)"
  by (simp add: gold_cap_of_eq account_of_def)

lemma within_ceiling_account_of:
  "within_ceiling client s u g =
     (0 \<le> gold (account_of client s u g)
      \<and> gold (account_of client s u g)
          \<le> (if is_admin (account_of client s u g) then MAX_GOLD_ADMIN else MAX_GOLD_NORMAL))"
  by (simp add: within_ceiling_def balance_of_account_of [of s u g client]
      gold_cap_of_account_of)

lemma read_account_idem:
  "read_account client (read_account client s u g) u g = read_account client s u g"
proof -
  have "read_account client (read_account client s u g) u g =
      (read_account client s u g)\<lparr>user_economy :=
         (user_economy (read_account client s u g))((u, g) \<mapsto> account_of client s u g)\<rparr>"
    by (subst read_account_eq) (simp add: account_of_read_account)
  also have "\<dots> = read_account client s u g"
    by (simp add: read_account_eq)
  finally show ?thesis .
qed

text \<open>Sample values.\<close>

lemma empty_db_row: "row_of empty_db u g = new_account"
  by (simp add: row_of_def empty_db_def)

lemma no_guilds_admin: "platform_admin no_guilds u g = False"
  by (simp add: platform_admin_def no_guilds_def)

lemma empty_db_cap: "gold_cap_of no_guilds empty_db u g = 50000000000"
  by (simp add: gold_cap_of_eq admin_of_def empty_db_row no_guilds_admin new_account_def
      MAX_GOLD_NORMAL_def)

lemma empty_db_balance: "balance_of empty_db u g = 100"
  by (simp add: balance_of_eq empty_db_row new_account_def)

section \<open>The balance engine\<close>

text \<open>
  \<^verbatim>\<open>update_user_balance\<close> returns the balance it read and the flag false, whatever the
  change, and writes neither the row nor a transaction: its \<^verbatim>\<open>INSERT\<close> raises on the
  timestamp argument. What is left of the call is the read of the account.
\<close>

lemma update_user_balance_eq:
  "update_user_balance client now s u g delta d =
     ((balance_of s u g, False), read_account client s u g)"
  by (simp add: update_user_balance_def split_beta Let_def timestamp_isoformat
      balance_of_def read_account_def)

lemma account_of_update_user_balance:
  "account_of client (snd (update_user_balance client now s u g delta d)) u' g'
     = account_of client s u' g'"
  by (simp add: update_user_balance_eq account_of_read_account)

section \<open>Clamping and the capped flag\<close>

text \<open>
  Claim C6 does not hold of the code. A new account holds 100 gold under a ceiling of
  50 billion. \<^verbatim>\<open>update_user_balance\<close> with a change of 5 returns \<^verbatim>\<open>(100, False)\<close> and
  leaves the balance at 100, where the clamp of 100 + 5 is 105; with a change of -30 it
  returns \<^verbatim>\<open>(100, False)\<close> and leaves 100, where the clamp is 70; with a change of
  60 billion it returns \<^verbatim>\<open>(100, False)\<close> and leaves 100, where the clamp is the ceiling
  and differs from the requested change. No transaction is recorded.
\<close>

theorem update_user_balance_applies_nothing:
  "balance_of empty_db 1 1 = 100
   \<and> gold_cap_of no_guilds empty_db 1 1 = 50000000000
   \<and> fst (update_user_balance no_guilds 0 empty_db 1 1 5 (Plain '''')) = (100, False)
   \<and> balance_of (snd (update_user_balance no_guilds 0 empty_db 1 1 5 (Plain ''''))) 1 1 = 100
   \<and> transactions (snd (update_user_balance no_guilds 0 empty_db 1 1 5 (Plain ''''))) = []
   \<and> fst (update_user_balance no_guilds 0 empty_db 1 1 (- 30) (Plain '''')) = (100, False)
   \<and> balance_of (snd (update_user_balance no_guilds 0 empty_db 1 1 (- 30) (Plain ''''))) 1 1
       = 100
   \<and> fst (update_user_balance no_guilds 0 empty_db 1 1 60000000000 (Plain ''''))
       = (100, False)
   \<and> balance_of (snd (update_user_balance no_guilds 0 empty_db 1 1 60000000000 (Plain '''')))
       1 1 = 100"
  by (simp add: update_user_balance_eq read_account_frame empty_db_balance empty_db_cap)
     (simp add: empty_db_def)

section \<open>Lifetime counters\<close>

text \<open>
  Claim C7 does not hold of the code. A new account has earned 100 and spent 0. After
  \<^verbatim>\<open>update_user_balance\<close> with a change of 5 its lifetime-earned counter is still 100,
  not 105; after a change of -30 its lifetime-spent counter is still 0, not 30.
\<close>

theorem update_user_balance_counts_nothing:
  "earned_of empty_db 1 1 = 100
   \<and> spent_of empty_db 1 1 = 0
   \<and> earned_of (snd (update_user_balance no_guilds 0 empty_db 1 1 5 (Plain ''''))) 1 1 = 100
   \<and> spent_of (snd (update_user_balance no_guilds 0 empty_db 1 1 (- 30) (Plain ''''))) 1 1 = 0"
  by (simp add: update_user_balance_eq read_account_frame)
     (simp add: earned_of_eq spent_of_eq empty_db_row new_account_def)

text \<open>No call of \<^verbatim>\<open>update_user_balance\<close> changes a counter, so none decreases.\<close>

lemma update_user_balance_counters:
  "earned_of (snd (update_user_balance client now s u g delta d)) u' g' = earned_of s u' g'"
  "spent_of (snd (update_user_balance client now s u g delta d)) u' g' = spent_of s u' g'"
  by (simp_all add: update_user_balance_eq read_account_frame)

section \<open>Cooldowns\<close>

lemma can_claim_daily_eq:
  "can_claim_daily now s u g =
     (case daily_claimed (row_of s u g) of
        None \<Rightarrow> True
      | Some last_claimed \<Rightarrow> now - last_claimed \<ge> 86400 * SECOND)"
  by (simp add: can_claim_daily_def row_of_def new_account_def Let_def split: option.splits)

lemma claim_daily_eq:
  "claim_daily client now daily_amount s u g =
     (if can_claim_daily now s u g then ((True, daily_amount), read_account client s u g)
      else ((False, 0), s))"
  by (simp add: claim_daily_def update_user_balance_eq)

text \<open>A daily claim leaves the claim timestamp of every account as it was, so what
  \<^verbatim>\<open>can_claim_daily\<close> answers after the claim is what it answered before.\<close>

lemma claim_daily_keeps_timestamp:
  "daily_claimed (row_of (snd (claim_daily client now daily_amount s u g)) u' g')
     = daily_claimed (row_of s u' g')"
  by (simp add: claim_daily_eq row_of_read_account account_of_def)

lemma claim_daily_still_allowed:
  "can_claim_daily now' (snd (claim_daily client now daily_amount s u g)) u' g'
     = can_claim_daily now' s u' g'"
  by (simp add: can_claim_daily_eq claim_daily_keeps_timestamp)

text \<open>
  The labour and the bonus claim never report success: \<^verbatim>\<open>work\<close> raises at the
  \<^verbatim>\<open>UPDATE\<close> of \<^verbatim>\<open>work_cooldown\<close> and \<^verbatim>\<open>claim_admin_monthly_bonus\<close> at the \<^verbatim>\<open>UPDATE\<close> of
  \<^verbatim>\<open>admin_monthly_claimed\<close>.
\<close>

lemma work_eq:
  "work client now work_amount s u g =
     (case get_labour_cooldown_status now s u g of
        (can_work, remaining_time, status_msg) \<Rightarrow>
          if can_work then ((False, 0, 0), read_account client s u g)
          else ((False, 0, remaining_time), s))"
  by (simp add: work_def update_user_balance_eq timestamp_isoformat split: prod.splits)

lemma work_never_succeeds: "fst (fst (work client now work_amount s u g)) = False"
  by (simp add: work_eq split: prod.splits)

lemma claim_admin_monthly_bonus_never_succeeds:
  "fst (fst (claim_admin_monthly_bonus client now s u g)) = False"
  "fst (snd (fst (claim_admin_monthly_bonus client now s u g))) = 0"
  "snd (claim_admin_monthly_bonus client now s u g) = snd (is_user_admin client s u g)"
  by (simp_all add: claim_admin_monthly_bonus_def split_beta Let_def timestamp_isoformat
      split: option.splits)

text \<open>
  Claim C2 does not hold of the code. A new account claims the daily stipend at an
  instant: \<^verbatim>\<open>claim_daily\<close> returns \<^verbatim>\<open>(True, 5)\<close>, a successful claim. The account's
  \<^verbatim>\<open>daily_claimed\<close> is still empty afterwards, \<^verbatim>\<open>can_claim_daily\<close> at the same instant
  still allows a claim, and a second \<^verbatim>\<open>claim_daily\<close> at that instant returns
  \<^verbatim>\<open>(True, 5)\<close> again.
\<close>

theorem claim_daily_sets_no_cooldown:
  "fst (claim_daily no_guilds 0 5 empty_db 1 1) = (True, 5)
   \<and> daily_claimed (row_of (snd (claim_daily no_guilds 0 5 empty_db 1 1)) 1 1) = None
   \<and> can_claim_daily 0 (snd (claim_daily no_guilds 0 5 empty_db 1 1)) 1 1
   \<and> fst (claim_daily no_guilds 0 5 (snd (claim_daily no_guilds 0 5 empty_db 1 1)) 1 1)
       = (True, 5)"
proof -
  have none: "daily_claimed (row_of empty_db 1 1) = None"
    by (simp add: empty_db_row new_account_def)
  have first: "can_claim_daily 0 empty_db 1 1"
    by (simp add: can_claim_daily_eq none)
  have again: "can_claim_daily 0 (snd (claim_daily no_guilds 0 5 empty_db 1 1)) 1 1"
    by (simp add: can_claim_daily_eq claim_daily_eq first row_of_read_account account_of_def
        none)
  show ?thesis
    using first again
    by (simp add: claim_daily_eq row_of_read_account account_of_def none)
qed

section \<open>The week window\<close>

lemma time_units:
  "MINUTE = SECOND * 60" "HOUR = MINUTE * 60" "DAY = HOUR * 24" "WEEK = DAY * 7"
  "0 < SECOND" "0 < MINUTE" "0 < HOUR" "0 < DAY" "0 < WEEK"
  by (simp_all add: SECOND_def MINUTE_def HOUR_def DAY_def WEEK_def)

lemma split_mod: "0 < c \<Longrightarrow> a mod (b * c) = b * ((a mod (b * c)) div b) + a mod (b::int)"
proof -
  have "a mod (b * c) mod b = a mod b"
    by (simp add: mod_mod_cancel)
  then show ?thesis
    using mult_div_mod_eq [of b "a mod (b * c)"] by simp
qed

text \<open>\<^verbatim>\<open>get_week_start\<close> takes off what has passed of the week: it returns the most
  recent Monday 00:00 UTC.\<close>

lemma get_week_start_eq: "get_week_start now = now - now mod WEEK"
proof -
  have w: "now mod WEEK = DAY * weekday now + now mod DAY"
    unfolding weekday_def time_units(4)
    by (rule zmod_zmult2_eq) simp
  have d: "now mod DAY = HOUR * hour now + now mod HOUR"
    unfolding hour_def time_units(3) by (rule split_mod) simp
  have h: "now mod HOUR = MINUTE * minute now + now mod MINUTE"
    unfolding minute_def time_units(2) by (rule split_mod) simp
  have m: "now mod MINUTE = SECOND * second now + now mod SECOND"
    unfolding second_def time_units(1) by (rule split_mod) simp
  show ?thesis
    by (simp add: get_week_start_def Let_def microsecond_def w d h m mult.commute)
qed

lemma get_week_start_monday:
  "get_week_start now mod WEEK = 0"
  "get_week_start now \<le> now"
  "now < get_week_start now + WEEK"
  using time_units(9) by (simp_all add: get_week_start_eq)

text \<open>
  The count query of \<^verbatim>\<open>can_gamble_weekly\<close> raises on its timestamp argument, so the
  function answers that all 30 tries remain, whatever the records of the week.
\<close>

lemma can_gamble_weekly_eq:
  "can_gamble_weekly now s u g = (True, WEEKLY_GAMBLING_TRIES, 0)"
  by (simp add: can_gamble_weekly_def Let_def timestamp_isoformat)

section \<open>The games\<close>

lemma medieval_game_known:
  "medieval_game ''dice'' roll = Some (roll < float_0_5, if roll < float_0_5 then 2 else 0)"
  "medieval_game ''coin'' roll = Some (roll < float_0_48, if roll < float_0_48 then 2 else 0)"
  "medieval_game ''slots'' roll =
     Some (roll < float_0_45,
           if roll < float_0_05 then 10 else if roll < float_0_15 then 3
           else if roll < float_0_45 then 2 else 0)"
  by (auto simp: medieval_game_def Let_def float_0_05_def float_0_15_def float_0_45_def)

lemma medieval_game_unknown:
  "game_type \<notin> {''dice'', ''coin'', ''slots''} \<Longrightarrow> medieval_game game_type roll = None"
  by (simp add: medieval_game_def)

lemma medieval_game_None:
  "(medieval_game game_type roll = None) = (game_type \<notin> {''dice'', ''coin'', ''slots''})"
  by (auto simp: medieval_game_def Let_def)

text \<open>
  The double \<^verbatim>\<open>0.48\<close> is less than 48/100, and it is a value \<^verbatim>\<open>random.random()\<close> can
  return: on that roll the coin loses.
\<close>

lemma coin_threshold:
  "float_0_48 < 48 / 100"
  "medieval_game ''coin'' float_0_48 = Some (False, 0)"
  by (simp_all add: medieval_game_known) (simp add: float_0_48_def)

text \<open>
  On the rolls \<^verbatim>\<open>random.random()\<close> can return, \<open>k / 2 ^ 53\<close>, the thresholds of the slots
  decide as the decimal numbers of the source do, and so does that of the dice, which is
  exact. The threshold of the coin decides differently at one roll, \<open>k = 4323455642275676\<close>.
\<close>

lemma roll_less:
  assumes "0 < b"
  shows "(real k / 2 ^ 53 < real a / real b) = (k * b < a * 2 ^ 53)"
proof -
  have "(real k / 2 ^ 53 < real a / real b) = (real k * real b < real a * 2 ^ 53)"
    using assms by (simp add: field_simps)
  also have "\<dots> = (real (k * b) < real (a * 2 ^ 53))"
    by simp
  also have "\<dots> = (k * b < a * 2 ^ 53)"
    by (simp only: of_nat_less_iff)
  finally show ?thesis .
qed

lemma slots_thresholds:
  "(real k / 2 ^ 53 < float_0_05) = (real k / 2 ^ 53 < 5 / 100)"
  "(real k / 2 ^ 53 < float_0_15) = (real k / 2 ^ 53 < 15 / 100)"
  "(real k / 2 ^ 53 < float_0_45) = (real k / 2 ^ 53 < 45 / 100)"
proof -
  have a: "(real k / 2 ^ 53 < float_0_05) = (k \<le> 450359962737049)"
    using roll_less [of "2 ^ 56" k 3602879701896397]
    by (cases "k \<le> 450359962737049") (simp_all add: float_0_05_def)
  have a': "(real k / 2 ^ 53 < 5 / 100) = (k \<le> 450359962737049)"
    using roll_less [of 100 k 5]
    by (cases "k \<le> 450359962737049") simp_all
  show "(real k / 2 ^ 53 < float_0_05) = (real k / 2 ^ 53 < 5 / 100)"
    by (simp only: a a')
  have b: "(real k / 2 ^ 53 < float_0_15) = (k \<le> 1351079888211148)"
    using roll_less [of "2 ^ 55" k 5404319552844595]
    by (cases "k \<le> 1351079888211148") (simp_all add: float_0_15_def)
  have b': "(real k / 2 ^ 53 < 15 / 100) = (k \<le> 1351079888211148)"
    using roll_less [of 100 k 15]
    by (cases "k \<le> 1351079888211148") simp_all
  show "(real k / 2 ^ 53 < float_0_15) = (real k / 2 ^ 53 < 15 / 100)"
    by (simp only: b b')
  have c: "(real k / 2 ^ 53 < float_0_45) = (k \<le> 4053239664633446)"
    using roll_less [of "2 ^ 54" k 8106479329266893]
    by (cases "k \<le> 4053239664633446") (simp_all add: float_0_45_def)
  have c': "(real k / 2 ^ 53 < 45 / 100) = (k \<le> 4053239664633446)"
    using roll_less [of 100 k 45]
    by (cases "k \<le> 4053239664633446") simp_all
  show "(real k / 2 ^ 53 < float_0_45) = (real k / 2 ^ 53 < 45 / 100)"
    by (simp only: c c')
qed

lemma coin_thresholds:
  "(real k / 2 ^ 53 < float_0_48) = (k < 4323455642275676)"
  "(real k / 2 ^ 53 < 48 / 100) = (k \<le> 4323455642275676)"
proof -
  show "(real k / 2 ^ 53 < float_0_48) = (k < 4323455642275676)"
    by (simp add: float_0_48_def field_simps)
  show "(real k / 2 ^ 53 < 48 / 100) = (k \<le> 4323455642275676)"
    using roll_less [of 100 k 48]
    by (cases "k \<le> 4323455642275676") simp_all
qed

section \<open>The wagering engine\<close>

text \<open>
  What \<^verbatim>\<open>gamble\<close> returns: one of the three refusals for the wager, the refusal of an
  unknown game, or, for every wager that passes these checks, the text of the \<^verbatim>\<open>except\<close>
  with no win and no payout: \<^verbatim>\<open>update_user_balance\<close> has applied nothing, and the
  \<^verbatim>\<open>INSERT\<close> of the gambling record raises. The quota is never the reason of a refusal.
  What is left of the call is the read of the account.
\<close>

lemma gamble_eq:
  "gamble client now roll s u g amount game_type =
     ((False, 0,
       if amount \<le> 0 then Literal ''Thou must wager a positive sum, good master!''
       else if amount > balance_of s u g
       then Literal ''Thy purse contains insufficient coin for such a wager!''
       else if balance_of s u g \<ge> gold_cap_of client s u g
       then Purse_at_maximum (gold_cap_of client s u g)
       else if game_type \<notin> {''dice'', ''coin'', ''slots''}
       then Literal ''Such games are unknown in our realm!''
       else Literal ''An ill omen befell thy game!''),
      read_account client s u g)"
proof -
  have cap: "fst (get_gold_cap client (snd (get_user_balance s u g)) u g)
      = gold_cap_of client s u g"
    by (simp add: gold_cap_of_def)
  have st: "snd (get_gold_cap client (snd (get_user_balance s u g)) u g)
      = read_account client s u g"
    by (simp add: read_account_def)
  have bal: "fst (fst (get_user_balance s u g)) = balance_of s u g"
    by (simp add: balance_of_def)
  have game: "game_type \<notin> {''dice'', ''coin'', ''slots''} \<Longrightarrow>
      medieval_game game_type roll = None"
    by (rule medieval_game_unknown)
  have known: "\<not> game_type \<notin> {''dice'', ''coin'', ''slots''} \<Longrightarrow>
      \<exists>win multiplier. medieval_game game_type roll = Some (win, multiplier)"
    using medieval_game_None [of game_type roll] by auto
  show ?thesis
  proof (cases "game_type \<notin> {''dice'', ''coin'', ''slots''}")
    case True
    show ?thesis
      unfolding gamble_def can_gamble_weekly_eq
      using True
      by (simp add: split_beta cap st bal game [OF True])
  next
    case False
    from known [OF False] obtain win multiplier
      where m: "medieval_game game_type roll = Some (win, multiplier)"
      by blast
    show ?thesis
      unfolding gamble_def can_gamble_weekly_eq
      using False
      by (simp add: split_beta Let_def cap st bal m update_user_balance_eq read_account_idem
          timestamp_isoformat)
  qed
qed

lemma account_of_gamble:
  "account_of client (snd (gamble client now roll s u g amount game_type)) u' g'
     = account_of client s u' g'"
  by (simp add: gamble_eq account_of_read_account)

text \<open>No wager changes a balance, a counter, a transaction or a gambling record.\<close>

lemma gamble_frame:
  "balance_of (snd (gamble client now roll s u g amount game_type)) u' g' = balance_of s u' g'"
  "wins_of (snd (gamble client now roll s u g amount game_type)) u' g' = wins_of s u' g'"
  "losses_of (snd (gamble client now roll s u g amount game_type)) u' g' = losses_of s u' g'"
  "transactions (snd (gamble client now roll s u g amount game_type)) = transactions s"
  "gambling_records (snd (gamble client now roll s u g amount game_type))
     = gambling_records s"
  by (simp_all add: gamble_eq read_account_frame)

text \<open>
  The preconditions (b), (c) and (d) of claim C3 are checked in this order, the first
  failure decides the refusal, and a refused wager changes nothing of what
  \<open>gamble_frame\<close> lists.
\<close>

lemma gamble_checks:
  "amount \<le> 0 \<Longrightarrow>
     fst (gamble client now roll s u g amount game_type)
       = (False, 0, Literal ''Thou must wager a positive sum, good master!'')"
  "0 < amount \<Longrightarrow> balance_of s u g < amount \<Longrightarrow>
     fst (gamble client now roll s u g amount game_type)
       = (False, 0, Literal ''Thy purse contains insufficient coin for such a wager!'')"
  "0 < amount \<Longrightarrow> amount \<le> balance_of s u g \<Longrightarrow>
   gold_cap_of client s u g \<le> balance_of s u g \<Longrightarrow>
     fst (gamble client now roll s u g amount game_type)
       = (False, 0, Purse_at_maximum (gold_cap_of client s u g))"
  by (simp_all add: gamble_eq)

section \<open>Preconditions of a wager\<close>




section \<open>Outcome of a wager\<close>

text \<open>
  Claim C9 does not hold of the code. A new account holds 100 gold and wagers 10.
  On the dice with the roll 1/4, a win that pays twice the wager, \<^verbatim>\<open>gamble\<close> returns no
  win and a payout of 0 with the text of the \<^verbatim>\<open>except\<close>, and the balance stays 100, not
  110. On the dice with the roll 3/4, a loss, the balance stays 100, not 90. On the slots
  with the roll 0, which pays ten times the wager, the balance stays 100, not 190. No
  transaction, gambling record or win counter is written.
\<close>

theorem gamble_pays_nothing:
  "medieval_game ''dice'' (1 / 4) = Some (True, 2)
   \<and> fst (gamble no_guilds 0 (1 / 4) empty_db 1 1 10 ''dice'')
       = (False, 0, Literal ''An ill omen befell thy game!'')
   \<and> balance_of (snd (gamble no_guilds 0 (1 / 4) empty_db 1 1 10 ''dice'')) 1 1 = 100
   \<and> wins_of (snd (gamble no_guilds 0 (1 / 4) empty_db 1 1 10 ''dice'')) 1 1 = 0
   \<and> transactions (snd (gamble no_guilds 0 (1 / 4) empty_db 1 1 10 ''dice'')) = []
   \<and> gambling_records (snd (gamble no_guilds 0 (1 / 4) empty_db 1 1 10 ''dice'')) = []
   \<and> medieval_game ''dice'' (3 / 4) = Some (False, 0)
   \<and> fst (gamble no_guilds 0 (3 / 4) empty_db 1 1 10 ''dice'')
       = (False, 0, Literal ''An ill omen befell thy game!'')
   \<and> balance_of (snd (gamble no_guilds 0 (3 / 4) empty_db 1 1 10 ''dice'')) 1 1 = 100
   \<and> medieval_game ''slots'' 0 = Some (True, 10)
   \<and> fst (gamble no_guilds 0 0 empty_db 1 1 10 ''slots'')
       = (False, 0, Literal ''An ill omen befell thy game!'')
   \<and> balance_of (snd (gamble no_guilds 0 0 empty_db 1 1 10 ''slots'')) 1 1 = 100"
proof -
  have games: "medieval_game ''dice'' (1 / 4) = Some (True, 2)"
    "medieval_game ''dice'' (3 / 4) = Some (False, 0)"
    "medieval_game ''slots'' 0 = Some (True, 10)"
    by (simp_all add: medieval_game_known float_0_5_def float_0_05_def float_0_45_def)
  have wins: "wins_of empty_db 1 1 = 0"
    by (simp add: wins_of_eq empty_db_row new_account_def)
  have tables: "transactions empty_db = []" "gambling_records empty_db = []"
    by (simp_all add: empty_db_def)
  show ?thesis
    by (simp add: games gamble_frame empty_db_balance wins tables)
       (simp add: gamble_eq empty_db_balance empty_db_cap)
qed

text \<open>An unknown game is refused, as the claim says.\<close>

lemma gamble_unknown_game:
  assumes "0 < amount" and "amount \<le> balance_of s u g"
    and "balance_of s u g < gold_cap_of client s u g"
    and "game_type \<notin> {''dice'', ''coin'', ''slots''}"
  shows "fst (gamble client now roll s u g amount game_type)
    = (False, 0, Literal ''Such games are unknown in our realm!'')"
  using assms by (simp add: gamble_eq)

section \<open>A win above the ceiling\<close>

lemma rich_db_facts:
  "balance_of rich_db 1 1 = 49999999995"
  "balance_of rich_db 2 1 = 100"
  "gold_cap_of no_guilds rich_db 1 1 = 50000000000"
  "gold_cap_of no_guilds rich_db 2 1 = 50000000000"
  by (simp_all add: rich_db_def empty_db_def balance_of_eq gold_cap_of_eq admin_of_def
      row_of_def new_account_def no_guilds_admin MAX_GOLD_NORMAL_def)


section \<open>Transfers\<close>

lemma transfer_gold_refused:
  assumes "balance_of s receiver_id guild_id + amount
             > gold_cap_of client s receiver_id guild_id"
  shows "transfer_gold client now s sender_id receiver_id guild_id amount =
    ((False,
      if amount \<le> 0 then Literal ''Thy sum must be positive, good master!''
      else if amount > balance_of s sender_id guild_id
      then Literal ''Thy purse contains insufficient coin!''
      else if sender_id = receiver_id then Literal ''Thou canst not pay thyself, good sir!''
      else Recipient_purse_full (gold_cap_of client s receiver_id guild_id)),
     read_account client (snd (get_user_balance s sender_id guild_id)) receiver_id guild_id)"
proof -
  have sg: "fst (fst (get_user_balance s sender_id guild_id)) = balance_of s sender_id guild_id"
    by (simp add: balance_of_def)
  have rg: "fst (fst (get_user_balance (snd (get_user_balance s sender_id guild_id))
                        receiver_id guild_id))
      = balance_of s receiver_id guild_id"
    by (simp add: balance_of_def [symmetric] get_user_balance_frame)
  have cap: "fst (get_gold_cap client
                (snd (get_user_balance (snd (get_user_balance s sender_id guild_id))
                        receiver_id guild_id)) receiver_id guild_id)
      = gold_cap_of client s receiver_id guild_id"
    by (simp add: gold_cap_of_def [symmetric] get_user_balance_frame)
  have st: "snd (get_gold_cap client
                (snd (get_user_balance (snd (get_user_balance s sender_id guild_id))
                        receiver_id guild_id)) receiver_id guild_id)
      = read_account client (snd (get_user_balance s sender_id guild_id)) receiver_id guild_id"
    by (simp add: read_account_def)
  show ?thesis
    unfolding transfer_gold_def split_beta sg rg cap st
    using assms by simp
qed

text \<open>
  Claim C10. When the receiver's balance plus the amount exceeds the receiver's ceiling,
  \<^verbatim>\<open>transfer_gold\<close> refuses with a text that is not empty, and the store has the
  transactions and, for every account, the balance it had: nothing is applied in part
  and nothing is left to the clamp of \<^verbatim>\<open>update_user_balance\<close>. When the earlier checks
  pass, the text is the one about the recipient's purse.
\<close>

theorem transfer_gold_receiver_cap:
  assumes "balance_of s receiver_id guild_id + amount
             > gold_cap_of client s receiver_id guild_id"
  shows "fst (fst (transfer_gold client now s sender_id receiver_id guild_id amount)) = False
    \<and> snd (fst (transfer_gold client now s sender_id receiver_id guild_id amount)) \<noteq> Empty
    \<and> (0 < amount \<and> amount \<le> balance_of s sender_id guild_id \<and> sender_id \<noteq> receiver_id
         \<longrightarrow> snd (fst (transfer_gold client now s sender_id receiver_id guild_id amount))
               = Recipient_purse_full (gold_cap_of client s receiver_id guild_id))
    \<and> transactions (snd (transfer_gold client now s sender_id receiver_id guild_id amount))
        = transactions s
    \<and> (\<forall>u g. balance_of (snd (transfer_gold client now s sender_id receiver_id guild_id
                                  amount)) u g
               = balance_of s u g)"
  by (simp add: transfer_gold_refused [OF assms] read_account_frame get_user_balance_frame)

text \<open>Account 2 holds 100 and pays 10 to account 1, which holds 49999999995 under a
  ceiling of 50 billion: refused, and both balances stay.\<close>

theorem transfer_gold_receiver_cap_witness:
  "balance_of rich_db 1 1 + 10 > gold_cap_of no_guilds rich_db 1 1
   \<and> fst (transfer_gold no_guilds 0 rich_db 2 1 1 10)
       = (False, Recipient_purse_full 50000000000)
   \<and> balance_of (snd (transfer_gold no_guilds 0 rich_db 2 1 1 10)) 2 1 = 100
   \<and> balance_of (snd (transfer_gold no_guilds 0 rich_db 2 1 1 10)) 1 1 = 49999999995"
proof -
  have h: "balance_of rich_db 1 1 + 10 > gold_cap_of no_guilds rich_db 1 1"
    by (simp add: rich_db_facts)
  show ?thesis
    using transfer_gold_receiver_cap [OF h, of 0 2]
    by (simp add: rich_db_facts prod_eq_iff)
qed

text \<open>A transfer that passes the four checks returns success, and the two calls of
  \<^verbatim>\<open>update_user_balance\<close> it makes apply nothing, as for every caller.\<close>

lemma account_of_transfer_gold:
  "account_of client (snd (transfer_gold client now s sender_id receiver_id guild_id amount))
     u' g' = account_of client s u' g'"
proof -
  have st: "\<And>t u g. snd (get_gold_cap client (snd (get_user_balance t u g)) u g)
      = read_account client t u g"
    by (simp add: read_account_def)
  show ?thesis
    unfolding transfer_gold_def split_beta st update_user_balance_eq
    by (simp add: account_of_read_account account_of_get_user_balance)
qed

section \<open>Shop\<close>

text \<open>A purchase never reports success, and what is left of it is at most the read of
  the buyer's account: the deduction applies nothing and the \<^verbatim>\<open>INSERT\<close> into the
  inventory raises.\<close>

lemma buy_item_state:
  "snd (buy_item client now roles_added s u g item_id guild) = s
   \<or> snd (buy_item client now roles_added s u g item_id guild) = read_account client s u g"
proof -
  have st: "snd (get_gold_cap client (snd (get_user_balance s u g)) u g)
      = read_account client s u g"
    by (simp add: read_account_def)
  show ?thesis
    unfolding buy_item_def split_beta Let_def st update_user_balance_eq read_account_idem
      timestamp_isoformat
    by (simp split: option.splits)
qed

lemma buy_item_never_succeeds:
  "fst (fst (buy_item client now roles_added s u g item_id guild)) = False"
  unfolding buy_item_def split_beta Let_def timestamp_isoformat
  by (simp split: option.splits)

lemma account_of_buy_item:
  "account_of client (snd (buy_item client now roles_added s u g item_id guild)) u' g'
     = account_of client s u' g'"
  using buy_item_state [of client now roles_added s u g item_id guild]
  by (auto simp: account_of_read_account)

section \<open>Ending a drawing\<close>

lemma mark_ended_frame:
  "user_economy (mark_ended s gid) = user_economy s"
  "transactions (mark_ended s gid) = transactions s"
  "gambling_records (mark_ended s gid) = gambling_records s"
  "giveaway_entries (mark_ended s gid) = giveaway_entries s"
  by (simp_all add: mark_ended_def split: option.splits)

lemma account_of_mark_ended:
  "account_of client (mark_ended s gid) u g = account_of client s u g"
  by (simp add: account_of_def admin_of_def row_of_def mark_ended_frame)



lemma account_of_award_prizes:
  "account_of client (award_prizes client now s gw ws) u g = account_of client s u g"
  by (induction ws arbitrary: s) (simp_all add: account_of_update_user_balance)



lemma account_of_end_giveaway:
  "account_of client (snd (end_giveaway client now picks s gid)) u g = account_of client s u g"
  by (simp add: end_giveaway_def Let_def account_of_mark_ended account_of_award_prizes
      split: option.splits)





section \<open>Entering and creating a drawing\<close>

text \<open>No entry is stored and no drawing is created: the \<^verbatim>\<open>INSERT\<close> of either raises on
  its timestamp argument.\<close>

lemma enter_giveaway_eq:
  "enter_giveaway now s gid uid =
     ((False,
       if find (\<lambda>row. e_giveaway_id row = gid \<and> e_user_id row = uid) (giveaway_entries s)
            = None
       then Literal ''Entry failed'' else Literal ''Already entered''), s)"
  by (simp add: enter_giveaway_def timestamp_isoformat split: option.splits)

lemma create_giveaway_eq:
  "create_giveaway s guild_id channel_id message_id host_id prize_name prize_amount end_time
     winner_count = (False, s)"
  by (simp add: create_giveaway_def timestamp_isoformat)

text \<open>A duration outside 5 to 1440 minutes, a winner count outside 1 to 10 or a prize
  below 1 is refused, and the store is as it was.\<close>

lemma tournament_cmd_rejects:
  assumes "duration_minutes < 5 \<or> duration_minutes > 1440 \<or> winner_count < 1
           \<or> winner_count > 10 \<or> prize_amount < 1"
  shows "\<exists>text. tournament_cmd has_permission client now s author_id guild_id channel_id
            message_id duration_minutes winner_count prize_amount prize_name
          = (Refused text, s)"
  using assms by (auto simp: tournament_cmd_def)

text \<open>Within the bounds, a host with permission whose balance is below the total is
  refused, with no drawing created and no balance changed.\<close>

lemma tournament_cmd_short:
  assumes "has_permission"
    and "5 \<le> duration_minutes" "duration_minutes \<le> 1440"
    and "1 \<le> winner_count" "winner_count \<le> 10" "1 \<le> prize_amount"
    and "balance_of s author_id guild_id < prize_amount * winner_count"
  shows "tournament_cmd has_permission client now s author_id guild_id channel_id
            message_id duration_minutes winner_count prize_amount prize_name
          = (Refused (Need_gold (prize_amount * winner_count) (balance_of s author_id guild_id)),
             snd (get_user_balance s author_id guild_id))"
  using assms by (simp add: tournament_cmd_def split_beta Let_def balance_of_def)


lemma account_of_tournament_cmd:
  "account_of client (snd (tournament_cmd has_permission client now s author_id guild_id
      channel_id message_id duration_minutes winner_count prize_amount prize_name)) u g
     = account_of client s u g"
  by (simp add: tournament_cmd_def split_beta Let_def create_giveaway_eq
      account_of_get_user_balance)


section \<open>The ceiling invariant\<close>

lemma account_of_claim_daily:
  "account_of client (snd (claim_daily client now daily_amount s u g)) u' g'
     = account_of client s u' g'"
  by (simp add: claim_daily_eq account_of_read_account)

lemma account_of_work:
  "account_of client (snd (work client now work_amount s u g)) u' g'
     = account_of client s u' g'"
  by (simp add: work_eq account_of_read_account split: prod.splits)

lemma account_of_claim_admin_monthly_bonus:
  "account_of client (snd (claim_admin_monthly_bonus client now s u g)) u' g'
     = account_of client s u' g'"
  by (simp add: claim_admin_monthly_bonus_never_succeeds account_of_is_user_admin)

text \<open>An account that has no row yet reads as a new account, which holds 100 gold and
  is within either ceiling.\<close>

lemma new_account_within_ceiling:
  "user_economy s (u, g) = None \<Longrightarrow> within_ceiling client s u g"
  by (simp add: within_ceiling_account_of account_of_def row_of_def new_account_def
      MAX_GOLD_ADMIN_def MAX_GOLD_NORMAL_def)

text \<open>
  Claim C1. An account whose balance is between 0 and its ceiling is so after
  \<^verbatim>\<open>update_user_balance\<close>, a daily claim, labour, a wager, a transfer, a purchase, the
  end of a drawing, the administrator's monthly bonus and the creation of a drawing,
  whoever the operation is for: each leaves the balance of every account as it was,
  and the ceiling of an account does not change.
\<close>

theorem ceiling_preserved:
  assumes "within_ceiling client s u' g'"
  shows "within_ceiling client (snd (update_user_balance client now s u g delta d)) u' g'
    \<and> within_ceiling client (snd (claim_daily client now daily_amount s u g)) u' g'
    \<and> within_ceiling client (snd (work client now work_amount s u g)) u' g'
    \<and> within_ceiling client (snd (gamble client now roll s u g amount game_type)) u' g'
    \<and> within_ceiling client (snd (transfer_gold client now s u receiver_id g amount)) u' g'
    \<and> within_ceiling client (snd (buy_item client now roles_added s u g item_id guild)) u' g'
    \<and> within_ceiling client (snd (end_giveaway client now picks s gid)) u' g'
    \<and> within_ceiling client (snd (claim_admin_monthly_bonus client now s u g)) u' g'
    \<and> within_ceiling client
        (snd (tournament_cmd has_permission client now s u g channel_id message_id
                duration_minutes winner_count prize_amount prize_name)) u' g'"
  using assms
  by (simp add: within_ceiling_account_of account_of_update_user_balance
      account_of_claim_daily account_of_work account_of_gamble account_of_transfer_gold
      account_of_buy_item account_of_end_giveaway account_of_claim_admin_monthly_bonus
      account_of_tournament_cmd)

text \<open>The administrator 1 of guild 1, whose shop sells a crown, has a new account of 100
  gold under a ceiling of 100 billion, and it is within the ceiling after each
  operation.\<close>

theorem ceiling_preserved_witness:
  "within_ceiling one_admin shop_db 1 1
   \<and> within_ceiling one_admin (snd (update_user_balance one_admin 0 shop_db 1 1 5 (Plain '''')))
       1 1
   \<and> within_ceiling one_admin (snd (claim_daily one_admin 0 5 shop_db 1 1)) 1 1
   \<and> within_ceiling one_admin (snd (work one_admin 0 10 shop_db 1 1)) 1 1
   \<and> within_ceiling one_admin (snd (gamble one_admin 0 (1 / 4) shop_db 1 1 10 ''dice'')) 1 1
   \<and> within_ceiling one_admin (snd (transfer_gold one_admin 0 shop_db 1 2 1 10)) 1 1
   \<and> within_ceiling one_admin (snd (buy_item one_admin 0 True shop_db 1 1 1 guild_one)) 1 1
   \<and> within_ceiling one_admin (snd (end_giveaway one_admin 0 [] shop_db 1)) 1 1
   \<and> within_ceiling one_admin (snd (claim_admin_monthly_bonus one_admin 0 shop_db 1 1)) 1 1
   \<and> within_ceiling one_admin
       (snd (tournament_cmd True one_admin 0 shop_db 1 1 7 8 60 2 10 ''cup'')) 1 1"
proof -
  have h: "within_ceiling one_admin shop_db 1 1"
    by (rule new_account_within_ceiling) (simp add: shop_db_def empty_db_def)
  show ?thesis
    using ceiling_preserved [OF h, where now = 0 and u = 1 and g = 1 and delta = 5
        and d = "Plain ''''" and daily_amount = 5 and work_amount = 10 and roll = "1 / 4"
        and amount = 10 and game_type = "''dice''" and receiver_id = 2
        and roles_added = True and item_id = 1 and guild = guild_one and picks = "[]"
        and gid = 1 and has_permission = True and channel_id = 7 and message_id = 8
        and duration_minutes = 60 and winner_count = 2 and prize_amount = 10
        and prize_name = "''cup''"]
    by (simp add: h)
qed

end
